theory Spec2Isabelle
  imports Complex_Main "HOL-Library.Multiset"
begin

section \<open>Python and torch primitives used by the two training scripts\<close>

text \<open>
  Python integers are \<open>int\<close>. Python floats that the scripts only compare, store or
  clamp (learning rate, clipping bound, tensor elements, scores) are modelled as
  \<open>real\<close>: comparison and clamping select one of their arguments and do not round.
  A loss value read back with \<open>.item()\<close> can be non-finite, so it has its own type.
\<close>

datatype error =
    ArgparseError | ValueError | NameError | RuntimeError | IndexError | ZeroDivisionError

datatype fl = Finite real | PosInf | NegInf | NaN

fun is_finite :: "fl \<Rightarrow> bool" where
  "is_finite (Finite x) = True"
| "is_finite PosInf = False"
| "is_finite NegInf = False"
| "is_finite NaN = False"

text \<open>\<open>range(start, stop, step)\<close>: a zero step raises ValueError.\<close>

definition py_range :: "int \<Rightarrow> int \<Rightarrow> int \<Rightarrow> error + int list" where
  "py_range start stop step =
     (if step = 0 then Inl ValueError
      else if 0 < step then
        Inr (map (\<lambda>k. start + int k * step) [0..<nat ((stop - start + step - 1) div step)])
      else
        Inr (map (\<lambda>k. start + int k * step) [0..<nat ((start - stop - step - 1) div (- step))]))"

text \<open>\<open>xs[lo:hi]\<close>: negative bounds count from the end, both bounds are clamped.\<close>

definition py_slice :: "int \<Rightarrow> int \<Rightarrow> 'a list \<Rightarrow> 'a list" where
  "py_slice lo hi xs =
     (let n = int (length xs);
          l = (if lo < 0 then max 0 (lo + n) else min lo n);
          h = (if hi < 0 then max 0 (hi + n) else min hi n)
      in take (nat (h - l)) (drop (nat l) xs))"

text \<open>\<open>data[perm]\<close>: row selection by an index tensor; an index out of range raises.\<close>

definition index_rows :: "'a list \<Rightarrow> nat list \<Rightarrow> error + 'a list" where
  "index_rows xs idx =
     (if \<forall>i \<in> set idx. i < length xs then Inr (map (\<lambda>i. xs ! i) idx) else Inl IndexError)"

text \<open>
  A tensor returned by \<open>torch.randn([rows, cols])\<close> is represented by the index of the
  call that drew it (the scripts never look at its entries) and its shape. A negative
  dimension raises RuntimeError.
\<close>

record noise =
  draw :: nat
  rows :: nat
  cols :: nat

definition randn :: "int \<Rightarrow> int \<Rightarrow> nat \<Rightarrow> error + noise" where
  "randn r c k =
     (if r < 0 \<or> c < 0 then Inl RuntimeError
      else Inr \<lparr>draw = k, rows = nat r, cols = nat c\<rparr>)"

text \<open>\<open>Tensor.clamp_(lo, hi)\<close> on one element.\<close>

definition clamp :: "real \<Rightarrow> real \<Rightarrow> real \<Rightarrow> real" where
  "clamp lo hi x = min (max x lo) hi"

text \<open>\<open>torch.topk(input, k)[0]\<close>: the k largest entries, largest first; k beyond the
  size of the input raises.\<close>

definition topk_values :: "real list \<Rightarrow> nat \<Rightarrow> error + real list" where
  "topk_values xs k =
     (if length xs < k then Inl RuntimeError else Inr (take k (rev (sort xs))))"

text \<open>A \<open>for\<close> loop whose body may raise: the first exception ends the loop.\<close>

fun for_each :: "('a \<Rightarrow> 'st \<Rightarrow> 'e + 'st) \<Rightarrow> 'a list \<Rightarrow> 'st \<Rightarrow> 'e + 'st" where
  "for_each body [] st = Inr st"
| "for_each body (x # xs) st =
     (case body x st of Inl e \<Rightarrow> Inl e | Inr st' \<Rightarrow> for_each body xs st')"

section \<open>GAN\_piece1: command line\<close>

text \<open>
  The namespace returned by \<open>parser.parse_args()\<close>. The command line is given as the
  values supplied for each option after argparse's type conversion (\<open>None\<close> when the
  option is absent, a flag for the two \<open>store_true\<close> options).
\<close>

record cli =
  cli_device :: "string option"
  cli_epochs :: "int option"
  cli_d_updates :: "int option"
  cli_plot_frequency :: "int option"
  cli_lr :: "real option"
  cli_latent_size :: "int option"
  cli_samples :: "int option"
  cli_batch_size :: "int option"
  cli_loss :: "string option"
  cli_spectral_norm :: bool
  cli_clip_weights :: "real option"
  cli_topk :: bool
  cli_gen_picture :: "bool option"

record args =
  device :: string
  epochs :: int
  d_updates :: int
  plot_frequency :: int
  lr :: real
  latent_size :: int
  samples :: int
  batch_size :: int
  loss :: string
  spectral_norm :: bool
  clip_weights :: real
  topk :: bool
  gen_picture :: bool

definition device_choices :: "string list" where
  "device_choices = [''cpu'', ''cuda'', ''mps'']"

definition loss_choices :: "string list" where
  "loss_choices =
     [''standard'', ''non-saturating'', ''hinge'', ''wasserstein'', ''wasserstein-gp'',
      ''least-squares'']"

definition opt_or :: "'a \<Rightarrow> 'a option \<Rightarrow> 'a" where
  "opt_or d v = (case v of None \<Rightarrow> d | Some x \<Rightarrow> x)"

text \<open>Lines 8-39: defaults, and the \<open>choices\<close> check of \<open>--device\<close> and \<open>--loss\<close>.\<close>

definition parse_args :: "cli \<Rightarrow> error + args" where
  "parse_args c =
     (if opt_or ''mps'' (cli_device c) \<notin> set device_choices then Inl ArgparseError
      else if opt_or ''standard'' (cli_loss c) \<notin> set loss_choices then Inl ArgparseError
      else Inr \<lparr>device = opt_or ''mps'' (cli_device c),
                epochs = opt_or 10000 (cli_epochs c),
                d_updates = opt_or 1 (cli_d_updates c),
                plot_frequency = opt_or 10 (cli_plot_frequency c),
                lr = opt_or 0.0001 (cli_lr c),
                latent_size = opt_or 32 (cli_latent_size c),
                samples = opt_or 10000 (cli_samples c),
                batch_size = opt_or 500 (cli_batch_size c),
                loss = opt_or ''standard'' (cli_loss c),
                spectral_norm = cli_spectral_norm c,
                clip_weights = opt_or 0 (cli_clip_weights c),
                topk = cli_topk c,
                gen_picture = opt_or False (cli_gen_picture c)\<rparr>)"

text \<open>Lines 41-53: the two assignments that are not commented out.\<close>

definition override :: "args \<Rightarrow> args" where
  "override a = a\<lparr>lr := 0.00004, gen_picture := True\<rparr>"

section \<open>GAN\_piece1: collaborators and state\<close>

datatype loss_family =
    Standard | NonSaturating | Hinge | Wasserstein | WassersteinGP | LeastSquares

text \<open>Lines 88-105: the dispatch chain on \<open>args.loss\<close>; the last branch is an \<open>else\<close>.\<close>

definition select_loss :: "string \<Rightarrow> loss_family" where
  "select_loss l =
     (if l = ''standard'' then Standard
      else if l = ''non-saturating'' then NonSaturating
      else if l = ''hinge'' then Hinge
      else if l = ''wasserstein'' then Wasserstein
      else if l = ''wasserstein-gp'' then WassersteinGP
      else LeastSquares)"

text \<open>
  What the loop leaves behind, in program order. \<open>Shuffle\<close>, \<open>DStep\<close> and \<open>GStep\<close>
  carry the epoch and the window index; \<open>DStep\<close> the index of the \<open>randn\<close> call whose
  noise it consumed, the real batch and the loss value; \<open>Clamp\<close> the grad mode in
  effect (\<open>False\<close> inside \<open>torch.no_grad()\<close>) and the bound; \<open>GStep\<close> the index of
  its \<open>randn\<close> call, the scores handed to the generator loss and the loss value.
\<close>

datatype 's event =
    FixedNoise nat
  | Shuffle int int nat
  | DStep int int nat "'s list" fl
  | Clamp bool real
  | GStep int int nat "real list" fl
  | Plot int

record 'o optimizer =
  opt_lr :: real
  opt_state :: 'o

text \<open>
  The modules \<open>utils\<close> and \<open>loss\<close>, the networks, the optimizer's update rule and the
  random permutation are collaborators that are not part of the two source files;
  they are parameters of the model. \<open>'s\<close> is a sample, \<open>'g\<close> the generator's
  parameters, \<open>'o\<close> the internal state of an RMSprop instance, \<open>'l\<close> a loss tensor
  (with its autograd graph). The discriminator's parameters are the list of their
  elements. The collaborators are functions: a call of one of them returns, and what it
  returns is not constrained except where a theorem says so.
\<close>

record ('s, 'g, 'o, 'l) env =
  get_data :: "int \<Rightarrow> 's list"
  get_generator :: "int \<Rightarrow> 'g"
  get_discriminator :: "bool \<Rightarrow> real list"
  rmsprop_init :: 'o
  randperm :: "nat \<Rightarrow> nat \<Rightarrow> nat list"
  gen_forward :: "'g \<Rightarrow> noise \<Rightarrow> 's list"
  disc_forward :: "real list \<Rightarrow> 's list \<Rightarrow> real list"
  loss_discriminator :: "loss_family \<Rightarrow> real list \<Rightarrow> real list \<Rightarrow> 'l"
  loss_discriminator_gp ::
    "real list \<Rightarrow> real list \<Rightarrow> real list \<Rightarrow> 's list \<Rightarrow> 's list \<Rightarrow> 'l"
  loss_generator :: "loss_family \<Rightarrow> real list \<Rightarrow> 'l"
  item :: "'l \<Rightarrow> fl"
  d_opt_step :: "'o optimizer \<Rightarrow> 'l \<Rightarrow> real list \<Rightarrow> 'o \<times> real list"
  g_opt_step :: "'o optimizer \<Rightarrow> 'l \<Rightarrow> 'g \<Rightarrow> 'o \<times> 'g"

text \<open>
  The variables of \<open>main\<close>. \<open>rng\<close> counts the calls of \<open>torch.randn\<close> and
  \<open>torch.randperm\<close> made so far; \<open>loss_d\<close> is \<open>None\<close> while the name is unbound.
\<close>

record ('s, 'g, 'o, 'l) state =
  rng :: nat
  fixed_generator_noise :: noise
  data :: "'s list"
  generator :: 'g
  discriminator :: "real list"
  family :: loss_family
  generator_optimizer :: "'o optimizer"
  discriminator_optimizer :: "'o optimizer"
  loss_d :: "'l option"
  loss_g :: "'l option"
  trace :: "'s event list"

type_synonym 's failure = "error \<times> 's event list"

section \<open>GAN\_piece1: the training loop\<close>

text \<open>
  Lines 127-149: one discriminator update. The batch is sliced, noise is drawn, the
  fake samples are computed (under \<open>torch.no_grad()\<close>), both predictions and the loss
  are computed, the optimizer steps, and the parameters are clamped when
  \<open>args.clip_weights > 0\<close>.
\<close>

definition d_update ::
  "('s, 'g, 'o, 'l) env \<Rightarrow> args \<Rightarrow> int \<Rightarrow> int \<Rightarrow> ('s, 'g, 'o, 'l) state
     \<Rightarrow> 's failure + ('s, 'g, 'o, 'l) state" where
  "d_update env a epoch index st =
     (let batch = py_slice index (index + batch_size a) (data st) in
      case randn (batch_size a) (latent_size a) (rng st) of
        Inl e \<Rightarrow> Inl (e, trace st)
      | Inr nz \<Rightarrow>
          let fake_samples = gen_forward env (generator st) nz;
              prediction_real = disc_forward env (discriminator st) batch;
              prediction_fake = disc_forward env (discriminator st) fake_samples;
              l = (if family st = WassersteinGP
                   then loss_discriminator_gp env prediction_real prediction_fake
                          (discriminator st) batch fake_samples
                   else loss_discriminator env (family st) prediction_real prediction_fake);
              stepped = d_opt_step env (discriminator_optimizer st) l (discriminator st)
          in Inr (st\<lparr>rng := Suc (rng st),
                     discriminator :=
                       (if 0 < clip_weights a
                        then map (clamp (- clip_weights a) (clip_weights a)) (snd stepped)
                        else snd stepped),
                     discriminator_optimizer :=
                       (discriminator_optimizer st)\<lparr>opt_state := fst stepped\<rparr>,
                     loss_d := Some l,
                     trace := trace st @ DStep epoch index (rng st) batch (item env l) #
                       (if 0 < clip_weights a then [Clamp False (clip_weights a)] else [])\<rparr>))"

text \<open>
  Lines 151-162: the generator update. \<open>scores_for_generator\<close> is lines 158-159, the
  top-k gate on \<open>args.topk and (epoch >= 0.5 * args.epochs)\<close>.
\<close>

definition scores_for_generator :: "args \<Rightarrow> int \<Rightarrow> real list \<Rightarrow> error + real list" where
  "scores_for_generator a epoch prediction_fake =
     (if topk a \<and> 0.5 * real_of_int (epochs a) \<le> real_of_int epoch
      then topk_values prediction_fake (length prediction_fake div 2)
      else Inr prediction_fake)"

definition g_update ::
  "('s, 'g, 'o, 'l) env \<Rightarrow> args \<Rightarrow> int \<Rightarrow> int \<Rightarrow> ('s, 'g, 'o, 'l) state
     \<Rightarrow> 's failure + ('s, 'g, 'o, 'l) state" where
  "g_update env a epoch index st =
     (case randn (batch_size a) (latent_size a) (rng st) of
        Inl e \<Rightarrow> Inl (e, trace st)
      | Inr nz \<Rightarrow>
          let fake_samples = gen_forward env (generator st) nz;
              prediction_fake = disc_forward env (discriminator st) fake_samples
          in (case scores_for_generator a epoch prediction_fake of
                Inl e \<Rightarrow> Inl (e, trace st)
              | Inr scores \<Rightarrow>
                  let l = loss_generator env (family st) scores;
                      stepped = g_opt_step env (generator_optimizer st) l (generator st)
                  in Inr (st\<lparr>rng := Suc (rng st),
                             generator := snd stepped,
                             generator_optimizer :=
                               (generator_optimizer st)\<lparr>opt_state := fst stepped\<rparr>,
                             loss_g := Some l,
                             trace := trace st @
                               [GStep epoch index (rng st) scores (item env l)]\<rparr>)))"

text \<open>Line 123: \<open>data = data[torch.randperm(data.shape[0])]\<close>.\<close>

definition shuffle ::
  "('s, 'g, 'o, 'l) env \<Rightarrow> int \<Rightarrow> int \<Rightarrow> ('s, 'g, 'o, 'l) state
     \<Rightarrow> 's failure + ('s, 'g, 'o, 'l) state" where
  "shuffle env epoch index st =
     (case index_rows (data st) (randperm env (rng st) (length (data st))) of
        Inl e \<Rightarrow> Inl (e, trace st)
      | Inr d \<Rightarrow>
          Inr (st\<lparr>rng := Suc (rng st), data := d,
                  trace := trace st @ [Shuffle epoch index (rng st)]\<rparr>))"

text \<open>
  Lines 121-166, the body of the loop over the windows: shuffle, \<open>range(args.d_updates)\<close>
  discriminator updates, one generator update, and the progress bar's description,
  which reads \<open>loss_d\<close> (NameError while the name is unbound).
\<close>

definition batch_step ::
  "('s, 'g, 'o, 'l) env \<Rightarrow> args \<Rightarrow> int \<Rightarrow> int \<Rightarrow> ('s, 'g, 'o, 'l) state
     \<Rightarrow> 's failure + ('s, 'g, 'o, 'l) state" where
  "batch_step env a epoch index st =
     (case shuffle env epoch index st of
        Inl f \<Rightarrow> Inl f
      | Inr st1 \<Rightarrow>
          (case for_each (\<lambda>_. d_update env a epoch index) [0..d_updates a - 1] st1 of
             Inl f \<Rightarrow> Inl f
           | Inr st2 \<Rightarrow>
               (case g_update env a epoch index st2 of
                  Inl f \<Rightarrow> Inl f
                | Inr st3 \<Rightarrow>
                    (case loss_d st3 of
                       None \<Rightarrow> Inl (NameError, trace st3)
                     | Some _ \<Rightarrow> Inr st3))))"

text \<open>Lines 168-238: the plot on the cadence \<open>(epoch + 1) % args.plot_frequency == 0\<close>.\<close>

definition plot ::
  "args \<Rightarrow> int \<Rightarrow> ('s, 'g, 'o, 'l) state \<Rightarrow> 's failure + ('s, 'g, 'o, 'l) state" where
  "plot a epoch st =
     (if plot_frequency a = 0 then Inl (ZeroDivisionError, trace st)
      else if (epoch + 1) mod plot_frequency a = 0
        then Inr (st\<lparr>trace := trace st @ [Plot epoch]\<rparr>)
      else Inr st)"

text \<open>Lines 118-238, the body of the loop over the epochs.\<close>

definition train_windows ::
  "('s, 'g, 'o, 'l) env \<Rightarrow> args \<Rightarrow> int \<Rightarrow> ('s, 'g, 'o, 'l) state
     \<Rightarrow> 's failure + ('s, 'g, 'o, 'l) state" where
  "train_windows env a epoch st =
     (case py_range 0 (samples a) (batch_size a) of
        Inl e \<Rightarrow> Inl (e, trace st)
      | Inr windows \<Rightarrow> for_each (batch_step env a epoch) windows st)"

definition train_epoch ::
  "('s, 'g, 'o, 'l) env \<Rightarrow> args \<Rightarrow> int \<Rightarrow> ('s, 'g, 'o, 'l) state
     \<Rightarrow> 's failure + ('s, 'g, 'o, 'l) state" where
  "train_epoch env a epoch st =
     (case train_windows env a epoch st of
        Inl f \<Rightarrow> Inl f
      | Inr st' \<Rightarrow> plot a epoch st')"

definition train ::
  "('s, 'g, 'o, 'l) env \<Rightarrow> args \<Rightarrow> ('s, 'g, 'o, 'l) state
     \<Rightarrow> 's failure + ('s, 'g, 'o, 'l) state" where
  "train env a st = for_each (train_epoch env a) [0..epochs a - 1] st"

text \<open>Lines 80-114: the fixed noise, the data, the networks, the loss pair, the optimizers.\<close>

definition init_state ::
  "('s, 'g, 'o, 'l) env \<Rightarrow> args \<Rightarrow> 's failure + ('s, 'g, 'o, 'l) state" where
  "init_state env a =
     (case randn (samples a div 10) (latent_size a) 0 of
        Inl e \<Rightarrow> Inl (e, [])
      | Inr fz \<Rightarrow>
          Inr \<lparr>rng = 1,
               fixed_generator_noise = fz,
               data = get_data env (samples a),
               generator = get_generator env (latent_size a),
               discriminator = get_discriminator env (spectral_norm a),
               family = select_loss (loss a),
               generator_optimizer = \<lparr>opt_lr = lr a, opt_state = rmsprop_init env\<rparr>,
               discriminator_optimizer = \<lparr>opt_lr = lr a, opt_state = rmsprop_init env\<rparr>,
               loss_d = None,
               loss_g = None,
               trace = [FixedNoise 0]\<rparr>)"

definition main ::
  "('s, 'g, 'o, 'l) env \<Rightarrow> cli \<Rightarrow> 's failure + ('s, 'g, 'o, 'l) state" where
  "main env c =
     (case parse_args c of
        Inl e \<Rightarrow> Inl (e, [])
      | Inr a \<Rightarrow>
          (case init_state env (override a) of
             Inl f \<Rightarrow> Inl f
           | Inr st \<Rightarrow> train env (override a) st))"

section \<open>GAN\_piece2: the training loop\<close>

text \<open>Lines 17-21: the hyperparameters.\<close>

definition p2_batch_size :: nat where
  "p2_batch_size = 64"

definition p2_latent_dim :: nat where
  "p2_latent_dim = 100"

definition p2_epochs :: nat where
  "p2_epochs = 50"

text \<open>
  A latent batch is either drawn by \<open>torch.randn\<close> (represented by the index of the
  call and its shape) or filled with one value by \<open>torch.full\<close>.
\<close>

datatype latent = Randn nat nat nat | Full nat nat real

fun latent_rows :: "latent \<Rightarrow> nat" where
  "latent_rows (Randn k r c) = r"
| "latent_rows (Full r c v) = r"

text \<open>
  Lines 43-52: the closure installed by \<open>set_generator_activation\<close>, given the mode and
  the value it captured, and the number of \<open>randn\<close> calls made so far; it returns the
  latent batch and the new number of calls.
\<close>

definition input_activation ::
  "string \<Rightarrow> real \<Rightarrow> nat \<Rightarrow> nat \<Rightarrow> nat \<Rightarrow> error + latent \<times> nat" where
  "input_activation mode v bs ld k =
     (if mode = ''random'' then Inr (Randn k bs ld, Suc k)
      else if mode = ''uniform'' then Inr (Full bs ld v, k)
      else Inl ValueError)"

text \<open>
  The two networks are stacks of \<open>nn.Linear\<close> layers and element-wise activations
  (lines 56-89), so a forward pass maps each row of its input to one row of its
  output. The row functions, the value of the binary cross entropy, the sum of two
  losses and the two Adam steps are parameters; \<open>'d\<close> and \<open>'g\<close> hold a network's
  parameters together with the state of its optimizer.
\<close>

record ('img, 'g, 'd, 'l) env2 =
  gen_row :: "'g \<Rightarrow> latent \<Rightarrow> nat \<Rightarrow> 'img"
  disc_row :: "'d \<Rightarrow> 'img \<Rightarrow> real"
  bce :: "real list \<Rightarrow> real list \<Rightarrow> 'l"
  add_loss :: "'l \<Rightarrow> 'l \<Rightarrow> 'l"
  item2 :: "'l \<Rightarrow> fl"
  step_D :: "'l \<Rightarrow> 'd \<Rightarrow> 'd"
  step_G :: "'l \<Rightarrow> 'g \<Rightarrow> 'g"
  train_loader :: "nat \<Rightarrow> 'img list list"

definition generator2 :: "('img, 'g, 'd, 'l) env2 \<Rightarrow> 'g \<Rightarrow> latent \<Rightarrow> 'img list" where
  "generator2 env g z = map (gen_row env g z) [0..<latent_rows z]"

definition discriminator2 :: "('img, 'g, 'd, 'l) env2 \<Rightarrow> 'd \<Rightarrow> 'img list \<Rightarrow> real list" where
  "discriminator2 env d xs = map (disc_row env d) xs"

text \<open>
  \<open>criterion = nn.BCELoss()\<close>: the target must have the size of the input, else
  ValueError.
\<close>

definition criterion ::
  "('img, 'g, 'd, 'l) env2 \<Rightarrow> real list \<Rightarrow> real list \<Rightarrow> error + 'l" where
  "criterion env input target =
     (if length input \<noteq> length target then Inl ValueError else Inr (bce env input target))"

datatype event2 =
    DStep2 nat nat latent nat fl
  | GStep2 nat nat latent nat fl
  | Metrics nat nat

type_synonym failure2 = "error \<times> event2 list"

record ('g, 'd, 'l) state2 =
  rng2 :: nat
  activation_mode :: string
  activation_value :: real
  generator_p2 :: 'g
  discriminator_p2 :: 'd
  trace2 :: "event2 list"

text \<open>
  Lines 171-190: one batch. The labels have \<open>imgs.size(0)\<close> rows; the latent batch has
  \<open>batch_size\<close> rows; \<open>generated_imgs\<close> is computed once and used by both updates.
  \<open>DStep2\<close> and \<open>GStep2\<close> carry the epoch, the batch number, the latent batch behind
  the images they scored, the number of labels and the loss value.
\<close>

definition batch_step2 ::
  "('img, 'g, 'd, 'l) env2 \<Rightarrow> nat \<Rightarrow> nat \<Rightarrow> 'img list \<Rightarrow> ('g, 'd, 'l) state2
     \<Rightarrow> failure2 + ('g, 'd, 'l) state2" where
  "batch_step2 env epoch i imgs st =
     (let real_labels = replicate (length imgs) (1::real);
          fake_labels = replicate (length imgs) (0::real)
      in case criterion env (discriminator2 env (discriminator_p2 st) imgs) real_labels of
           Inl e \<Rightarrow> Inl (e, trace2 st)
         | Inr real_loss \<Rightarrow>
             (case input_activation (activation_mode st) (activation_value st)
                     p2_batch_size p2_latent_dim (rng2 st) of
                Inl e \<Rightarrow> Inl (e, trace2 st)
              | Inr (z, k) \<Rightarrow>
                  (let generated_imgs = generator2 env (generator_p2 st) z in
                   case criterion env
                          (discriminator2 env (discriminator_p2 st) generated_imgs)
                          fake_labels of
                     Inl e \<Rightarrow> Inl (e, trace2 st)
                   | Inr fake_loss \<Rightarrow>
                       (let d_loss = add_loss env real_loss fake_loss;
                            d' = step_D env d_loss (discriminator_p2 st);
                            tr = trace2 st @
                              [DStep2 epoch i z (length fake_labels) (item2 env d_loss)]
                        in case criterion env (discriminator2 env d' generated_imgs)
                                  real_labels of
                             Inl e \<Rightarrow> Inl (e, tr)
                           | Inr g_loss \<Rightarrow>
                               Inr (st\<lparr>rng2 := k,
                                       generator_p2 := step_G env g_loss (generator_p2 st),
                                       discriminator_p2 := d',
                                       trace2 := tr @
                                         [GStep2 epoch i z (length real_labels)
                                            (item2 env g_loss)]\<rparr>)))))"

text \<open>Lines 159-168.\<close>

definition save_interval :: "nat \<Rightarrow> nat" where
  "save_interval epoch =
     (if epoch < 2 then 10
      else if 2 \<le> epoch \<and> epoch < 5 then 30
      else if 5 \<le> epoch \<and> epoch < 10 then 50
      else if 10 \<le> epoch \<and> epoch < 30 then 100
      else 200)"

text \<open>
  Lines 196-239: the metrics and the image grid, on the cadence
  \<open>i % save_interval == 0\<close>. They draw \<open>torch.randn(100, latent_dim)\<close> and call
  \<open>input_activation\<close> once more; what they compute and write is not modelled.
\<close>

definition metrics ::
  "nat \<Rightarrow> nat \<Rightarrow> ('g, 'd, 'l) state2 \<Rightarrow> failure2 + ('g, 'd, 'l) state2" where
  "metrics epoch i st =
     (if i mod save_interval epoch = 0 then
        (case input_activation (activation_mode st) (activation_value st)
                p2_batch_size p2_latent_dim (Suc (rng2 st)) of
           Inl e \<Rightarrow> Inl (e, trace2 st)
         | Inr (z, k) \<Rightarrow> Inr (st\<lparr>rng2 := k, trace2 := trace2 st @ [Metrics epoch i]\<rparr>))
      else Inr st)"

definition batch_body2 ::
  "('img, 'g, 'd, 'l) env2 \<Rightarrow> nat \<Rightarrow> nat \<times> 'img list \<Rightarrow> ('g, 'd, 'l) state2
     \<Rightarrow> failure2 + ('g, 'd, 'l) state2" where
  "batch_body2 env epoch p st =
     (case batch_step2 env epoch (fst p) (snd p) st of
        Inl f \<Rightarrow> Inl f
      | Inr st' \<Rightarrow> metrics epoch (fst p) st')"

text \<open>Lines 158-239: \<open>for epoch in range(epochs)\<close>, \<open>for i, (imgs, _) in
  enumerate(train_loader)\<close>.\<close>

definition train_epoch2 ::
  "('img, 'g, 'd, 'l) env2 \<Rightarrow> nat \<Rightarrow> ('g, 'd, 'l) state2
     \<Rightarrow> failure2 + ('g, 'd, 'l) state2" where
  "train_epoch2 env epoch st =
     for_each (batch_body2 env epoch) (enumerate 0 (train_loader env epoch)) st"

definition train2 ::
  "('img, 'g, 'd, 'l) env2 \<Rightarrow> ('g, 'd, 'l) state2 \<Rightarrow> failure2 + ('g, 'd, 'l) state2" where
  "train2 env st = for_each (train_epoch2 env) [0..<p2_epochs] st"

text \<open>Lines 92-96: the networks, and the activation set to \<open>uniform\<close> with value 0.5.\<close>

definition init_state2 :: "'g \<Rightarrow> 'd \<Rightarrow> ('g, 'd, 'l) state2" where
  "init_state2 g d =
     \<lparr>rng2 = 0, activation_mode = ''uniform'', activation_value = 0.5,
      generator_p2 = g, discriminator_p2 = d, trace2 = []\<rparr>"

section \<open>Observations on a trace\<close>

text \<open>The optimizer steps of a trace, each with the index of the noise it consumed.\<close>

datatype step = D nat | G nat

fun steps_of :: "'s event list \<Rightarrow> step list" where
  "steps_of [] = []"
| "steps_of (DStep e i k b v # evs) = D k # steps_of evs"
| "steps_of (GStep e i k s v # evs) = G k # steps_of evs"
| "steps_of (FixedNoise k # evs) = steps_of evs"
| "steps_of (Shuffle e i k # evs) = steps_of evs"
| "steps_of (Clamp g c # evs) = steps_of evs"
| "steps_of (Plot e # evs) = steps_of evs"

text \<open>
  The skeleton of a trace: each event without the tensors and values it carries; a
  discriminator step keeps the number of rows of its real batch.
\<close>

datatype mark = MFixed | MShuffle int int | MD int int nat | MClamp | MG int int | MPlot int

fun mark_of :: "'s event \<Rightarrow> mark" where
  "mark_of (FixedNoise k) = MFixed"
| "mark_of (Shuffle e i k) = MShuffle e i"
| "mark_of (DStep e i k b v) = MD e i (length b)"
| "mark_of (Clamp g c) = MClamp"
| "mark_of (GStep e i k s v) = MG e i"
| "mark_of (Plot e) = MPlot e"

definition marks :: "'s event list \<Rightarrow> mark list" where
  "marks tr = map mark_of tr"

text \<open>The number of rows of \<open>xs[lo:hi]\<close> for a tensor of n rows.\<close>

definition slice_len :: "nat \<Rightarrow> int \<Rightarrow> int \<Rightarrow> nat" where
  "slice_len n lo hi =
     nat ((if hi < 0 then max 0 (hi + int n) else min hi (int n)) -
          (if lo < 0 then max 0 (lo + int n) else min lo (int n)))"

text \<open>
  The skeleton that the loop's structure prescribes for one window, one epoch and the
  whole run, from the arguments and the number of rows of the data alone.
\<close>

definition d_marks :: "args \<Rightarrow> nat \<Rightarrow> int \<Rightarrow> int \<Rightarrow> mark list" where
  "d_marks a n e i =
     MD e i (slice_len n i (i + batch_size a)) # (if 0 < clip_weights a then [MClamp] else [])"

definition batch_marks :: "args \<Rightarrow> nat \<Rightarrow> int \<Rightarrow> int \<Rightarrow> mark list" where
  "batch_marks a n e i =
     MShuffle e i # concat (replicate (nat (d_updates a)) (d_marks a n e i)) @ [MG e i]"

definition windows_of :: "args \<Rightarrow> int list" where
  "windows_of a = (case py_range 0 (samples a) (batch_size a) of Inl e \<Rightarrow> [] | Inr ws \<Rightarrow> ws)"

definition epoch_marks :: "args \<Rightarrow> nat \<Rightarrow> int \<Rightarrow> mark list" where
  "epoch_marks a n e =
     concat (map (batch_marks a n e) (windows_of a)) @
     (if (e + 1) mod plot_frequency a = 0 then [MPlot e] else [])"

definition run_marks :: "args \<Rightarrow> nat \<Rightarrow> mark list" where
  "run_marks a n = MFixed # concat (map (epoch_marks a n) [0..epochs a - 1])"






text \<open>A step whose loss value is not finite, with an optimizer step after it.\<close>

fun loss_of :: "'s event \<Rightarrow> fl option" where
  "loss_of (DStep e i k b v) = Some v"
| "loss_of (GStep e i k s v) = Some v"
| "loss_of (FixedNoise k) = None"
| "loss_of (Shuffle e i k) = None"
| "loss_of (Clamp g c) = None"
| "loss_of (Plot e) = None"

fun continues_past_nonfinite :: "'s event list \<Rightarrow> bool" where
  "continues_past_nonfinite [] = False"
| "continues_past_nonfinite (ev # evs) =
     ((case loss_of ev of None \<Rightarrow> False | Some v \<Rightarrow> \<not> is_finite v \<and> steps_of evs \<noteq> [])
      \<or> continues_past_nonfinite evs)"


text \<open>\<open>torch.randperm(n)\<close> returns a permutation of \<open>0, ..., n - 1\<close>.\<close>

definition perm_ok :: "('s, 'g, 'o, 'l) env \<Rightarrow> bool" where
  "perm_ok env = (\<forall>k n. mset (randperm env k n) = mset [0..<n])"


text \<open>The learning rates of the two optimizers.\<close>

definition lrs :: "('s, 'g, 'o, 'l) state \<Rightarrow> real \<times> real" where
  "lrs st = (opt_lr (generator_optimizer st), opt_lr (discriminator_optimizer st))"

text \<open>
  A configuration under which no statement of the loop raises: the fixed noise and the
  noise batches have non-negative dimensions, the window step is positive, the
  discriminator is updated at least once per window (so that \<open>loss_d\<close> is bound when
  the progress bar reads it), and the plot cadence is not zero.
\<close>

definition config_ok :: "args \<Rightarrow> bool" where
  "config_ok a =
     (0 \<le> samples a \<and> 0 < batch_size a \<and> 0 \<le> latent_size a \<and> 1 \<le> d_updates a
      \<and> plot_frequency a \<noteq> 0)"


section \<open>Small instances\<close>

text \<open>
  Collaborators over samples that are numbers: the permutation reverses, a forward
  pass of the generator returns the row numbers, the discriminator scores a sample by
  its value, the discriminator loss is NaN, the optimizer adds one to every parameter.
\<close>

definition ex_env :: "(nat, unit, unit, fl) env" where
  "ex_env =
     \<lparr>get_data = (\<lambda>n. [0..<nat n]),
      get_generator = (\<lambda>_. ()),
      get_discriminator = (\<lambda>_. [5, - 7]),
      rmsprop_init = (),
      randperm = (\<lambda>k n. rev [0..<n]),
      gen_forward = (\<lambda>g z. [0..<rows z]),
      disc_forward = (\<lambda>p xs. map real xs),
      loss_discriminator = (\<lambda>f r k. NaN),
      loss_discriminator_gp = (\<lambda>r k p b f. NaN),
      loss_generator = (\<lambda>f s. Finite (sum_list s)),
      item = (\<lambda>l. l),
      d_opt_step = (\<lambda>opt l p. ((), map (\<lambda>x. x + 1) p)),
      g_opt_step = (\<lambda>opt l g. ((), g))\<rparr>"

definition ex_cli :: cli where
  "ex_cli =
     \<lparr>cli_device = None, cli_epochs = Some 1, cli_d_updates = Some 1,
      cli_plot_frequency = None, cli_lr = Some 1, cli_latent_size = Some 2,
      cli_samples = Some 4, cli_batch_size = Some 2, cli_loss = None,
      cli_spectral_norm = False, cli_clip_weights = Some 0.5, cli_topk = False,
      cli_gen_picture = None\<rparr>"

definition ex_args :: args where
  "ex_args =
     \<lparr>device = ''mps'', epochs = 1, d_updates = 1, plot_frequency = 10, lr = 0.00004,
      latent_size = 2, samples = 4, batch_size = 2, loss = ''standard'',
      spectral_norm = False, clip_weights = 0.5, topk = False, gen_picture = True\<rparr>"

definition ex_state :: "(nat, unit, unit, fl) state" where
  "ex_state =
     \<lparr>rng = 1, fixed_generator_noise = \<lparr>draw = 0, rows = 0, cols = 2\<rparr>,
      data = [0, 1, 2, 3], generator = (), discriminator = [5, - 7], family = Standard,
      generator_optimizer = \<lparr>opt_lr = 0.00004, opt_state = ()\<rparr>,
      discriminator_optimizer = \<lparr>opt_lr = 0.00004, opt_state = ()\<rparr>,
      loss_d = None, loss_g = None, trace = [FixedNoise 0]\<rparr>"

text \<open>The state in which \<open>main ex_env ex_cli\<close> ends.\<close>

definition ex_final :: "(nat, unit, unit, fl) state" where
  "ex_final =
     ex_state\<lparr>rng := 7, discriminator := [0.5, 0.5], loss_d := Some NaN,
       loss_g := Some (Finite 1),
       trace := [FixedNoise 0,
         Shuffle 0 0 1, DStep 0 0 2 [3, 2] NaN, Clamp False 0.5, GStep 0 0 3 [0, 1] (Finite 1),
         Shuffle 0 2 4, DStep 0 2 5 [2, 3] NaN, Clamp False 0.5, GStep 0 2 6 [0, 1] (Finite 1)]\<rparr>"

definition ex_env2 :: "(nat, unit, unit, fl) env2" where
  "ex_env2 =
     \<lparr>gen_row = (\<lambda>g z r. r),
      disc_row = (\<lambda>d x. 0.5),
      bce = (\<lambda>input target. Finite 1),
      add_loss = (\<lambda>l1 l2. Finite 2),
      item2 = (\<lambda>l. l),
      step_D = (\<lambda>l d. d),
      step_G = (\<lambda>l g. g),
      train_loader = (\<lambda>epoch. [])\<rparr>"

section \<open>Loops and single steps\<close>


lemma for_each_preserves:
  assumes "for_each body xs st = Inr st'" and "P st"
    and "\<And>x s s'. x \<in> set xs \<Longrightarrow> P s \<Longrightarrow> body x s = Inr s' \<Longrightarrow> P s'"
  shows "P st'"
  using assms
proof (induction xs arbitrary: st)
  case Nil
  then show ?case by simp
next
  case (Cons x xs)
  from Cons.prems(1) obtain s1 where b: "body x st = Inr s1" and r: "for_each body xs s1 = Inr st'"
    by (auto split: sum.splits)
  have "P s1" using Cons.prems(2,3) b by auto
  then show ?case using Cons.IH [OF r] Cons.prems(3) by auto
qed

lemma for_each_indexed:
  assumes "I 0 st"
    and "\<And>k s. k < length xs \<Longrightarrow> I k s \<Longrightarrow> \<exists>s'. body (xs ! k) s = Inr s' \<and> I (Suc k) s'"
  shows "\<exists>st'. for_each body xs st = Inr st' \<and> I (length xs) st'"
  using assms
proof (induction xs arbitrary: I st)
  case Nil
  then show ?case by simp
next
  case (Cons x xs)
  from Cons.prems(2) [of 0 st] Cons.prems(1)
  obtain s1 where b: "body x st = Inr s1" and i1: "I (Suc 0) s1" by auto
  have step: "\<And>k s. k < length xs \<Longrightarrow> I (Suc k) s \<Longrightarrow>
      \<exists>s'. body (xs ! k) s = Inr s' \<and> I (Suc (Suc k)) s'"
    using Cons.prems(2) by fastforce
  from Cons.IH [of "\<lambda>k. I (Suc k)" s1, OF i1 step]
  show ?case using b by simp
qed

lemma for_each_indexed_partial:
  assumes "for_each body xs st = Inr st'" and "I 0 st"
    and "\<And>k s s'. k < length xs \<Longrightarrow> I k s \<Longrightarrow> body (xs ! k) s = Inr s' \<Longrightarrow> I (Suc k) s'"
  shows "I (length xs) st'"
  using assms
proof (induction xs arbitrary: I st)
  case Nil
  then show ?case by simp
next
  case (Cons x xs)
  from Cons.prems(1) obtain s1 where b: "body x st = Inr s1" and r: "for_each body xs s1 = Inr st'"
    by (auto split: sum.splits)
  have i1: "I (Suc 0) s1" using Cons.prems(3) [of 0 st s1] Cons.prems(2) b by simp
  have step: "\<And>k s s'. k < length xs \<Longrightarrow> I (Suc k) s \<Longrightarrow> body (xs ! k) s = Inr s' \<Longrightarrow> I (Suc (Suc k)) s'"
    using Cons.prems(3) by fastforce
  from Cons.IH [of s1 "\<lambda>k. I (Suc k)", OF r i1 step]
  show ?case by simp
qed

lemma shuffle_Inr:
  assumes "shuffle env e i st = Inr st'"
  shows "st' = st\<lparr>rng := Suc (rng st),
                  data := map (\<lambda>k. data st ! k) (randperm env (rng st) (length (data st))),
                  trace := trace st @ [Shuffle e i (rng st)]\<rparr>"
    and "\<forall>k \<in> set (randperm env (rng st) (length (data st))). k < length (data st)"
  using assms by (auto simp: shuffle_def index_rows_def split: if_splits)

lemma d_update_Inr:
  assumes "d_update env a e i st = Inr st'"
  shows "rng st' = Suc (rng st)" and "data st' = data st" and "generator st' = generator st"
    and "family st' = family st" and "loss_d st' \<noteq> None"
    and "generator_optimizer st' = generator_optimizer st"
    and "opt_lr (discriminator_optimizer st') = opt_lr (discriminator_optimizer st)"
    and "\<exists>v. trace st' = trace st @ DStep e i (rng st) (py_slice i (i + batch_size a) (data st)) v #
           (if 0 < clip_weights a then [Clamp False (clip_weights a)] else [])"
    and "0 \<le> batch_size a" and "0 \<le> latent_size a"
  using assms by (auto simp: d_update_def Let_def randn_def split: sum.splits if_splits)

lemma g_update_Inr:
  assumes "g_update env a e i st = Inr st'"
  shows "rng st' = Suc (rng st)" and "data st' = data st" and "discriminator st' = discriminator st"
    and "family st' = family st" and "loss_d st' = loss_d st"
    and "discriminator_optimizer st' = discriminator_optimizer st"
    and "opt_lr (generator_optimizer st') = opt_lr (generator_optimizer st)"
    and "\<exists>nz s v. randn (batch_size a) (latent_size a) (rng st) = Inr nz \<and>
           scores_for_generator a e (disc_forward env (discriminator st) (gen_forward env (generator st) nz)) = Inr s \<and>
           trace st' = trace st @ [GStep e i (rng st) s v]"
  using assms by (auto simp: g_update_def Let_def split: sum.splits if_splits)





lemma batch_step_Inr:
  assumes "batch_step env a e i st = Inr st'"
  obtains st1 st2 where "shuffle env e i st = Inr st1"
    and "for_each (\<lambda>_. d_update env a e i) [0..d_updates a - 1] st1 = Inr st2"
    and "g_update env a e i st2 = Inr st'" and "loss_d st' \<noteq> None"
  using assms by (auto simp: batch_step_def split: sum.splits option.splits)



section \<open>The command line\<close>


lemma parse_args_Inr:
  assumes "parse_args c = Inr a"
  shows "loss a \<in> set loss_choices" and "device a \<in> set device_choices"
    and "clip_weights a = opt_or 0 (cli_clip_weights c)"
    and "loss a = opt_or ''standard'' (cli_loss c)"
  using assms by (auto simp: parse_args_def split: if_splits)

lemma select_loss_else:
  assumes "l \<in> set loss_choices" and "select_loss l = LeastSquares"
  shows "l = ''least-squares''"
  using assms by (auto simp: loss_choices_def select_loss_def split: if_splits)

text \<open>
  C6: a \<open>--loss\<close> value outside the six choices makes \<open>parse_args\<close> fail, and
  \<open>main\<close> ends with that error and an empty trace: before the fixed noise, the first
  tensor, is allocated and before any step. For every namespace that \<open>parse_args\<close>
  returns the name is one of the six, so the final \<open>else\<close> of the dispatch chain is
  reached by \<open>least-squares\<close> only: no other name is mapped to a family.
\<close>

theorem unknown_loss_rejected:
  "(opt_or ''standard'' (cli_loss c) \<notin> set loss_choices \<longrightarrow>
      parse_args c = Inl ArgparseError \<and> main env c = Inl (ArgparseError, []))
   \<and> (parse_args c = Inr a \<longrightarrow>
      loss a \<in> set loss_choices \<and>
      (select_loss (loss a) = LeastSquares \<longrightarrow> loss a = ''least-squares''))"
proof -
  have "parse_args c = Inl ArgparseError \<and> main env c = Inl (ArgparseError, [])"
    if "opt_or ''standard'' (cli_loss c) \<notin> set loss_choices"
    using that by (simp add: parse_args_def main_def)
  moreover have "loss a \<in> set loss_choices \<and>
      (select_loss (loss a) = LeastSquares \<longrightarrow> loss a = ''least-squares'')"
    if "parse_args c = Inr a"
    using parse_args_Inr(1) [OF that] select_loss_else by blast
  ultimately show ?thesis by blast
qed

theorem unknown_loss_rejected_witness:
  "opt_or ''standard'' (cli_loss (ex_cli\<lparr>cli_loss := Some ''bogus''\<rparr>)) \<notin> set loss_choices
   \<and> main ex_env (ex_cli\<lparr>cli_loss := Some ''bogus''\<rparr>) = Inl (ArgparseError, [])
   \<and> parse_args (ex_cli\<lparr>cli_loss := Some ''least-squares''\<rparr>) =
        Inr ((projr (parse_args ex_cli))\<lparr>loss := ''least-squares''\<rparr>)
   \<and> select_loss ''least-squares'' = LeastSquares"
proof -
  have h: "opt_or ''standard'' (cli_loss (ex_cli\<lparr>cli_loss := Some ''bogus''\<rparr>)) \<notin> set loss_choices"
    by (simp add: opt_or_def ex_cli_def loss_choices_def)
  have p: "parse_args (ex_cli\<lparr>cli_loss := Some ''least-squares''\<rparr>) =
        Inr ((projr (parse_args ex_cli))\<lparr>loss := ''least-squares''\<rparr>)"
    by (simp add: parse_args_def opt_or_def ex_cli_def loss_choices_def device_choices_def)
  have s: "select_loss ''least-squares'' = LeastSquares"
    by (simp add: select_loss_def)
  show ?thesis
    using h p s
      unknown_loss_rejected [of "ex_cli\<lparr>cli_loss := Some ''bogus''\<rparr>" ex_env
        "(projr (parse_args ex_cli))\<lparr>loss := ''least-squares''\<rparr>"]
    by blast
qed

section \<open>The learning rate\<close>


lemma plot_Inr:
  assumes "plot a e st = Inr st'"
  shows "st' = st\<lparr>trace := trace st @ (if (e + 1) mod plot_frequency a = 0 then [Plot e] else [])\<rparr>"
    and "plot_frequency a \<noteq> 0"
  using assms by (auto simp: plot_def split: if_splits)

lemma init_state_Inr:
  assumes "init_state env a = Inr st"
  shows "opt_lr (generator_optimizer st) = lr a" and "opt_lr (discriminator_optimizer st) = lr a"
    and "trace st = [FixedNoise 0]" and "data st = get_data env (samples a)"
    and "loss_d st = None" and "rng st = 1" and "family st = select_loss (loss a)"
    and "discriminator st = get_discriminator env (spectral_norm a)"
  using assms by (auto simp: init_state_def split: sum.splits)

lemma main_Inr:
  assumes "main env c = Inr st"
  obtains a st0 where "parse_args c = Inr a" and "init_state env (override a) = Inr st0"
    and "train env (override a) st0 = Inr st"
  using assms by (auto simp: main_def split: sum.splits)


lemma batch_step_lrs:
  assumes "batch_step env a e i st = Inr st'"
  shows "lrs st' = lrs st"
proof -
  from assms obtain st1 st2 where s: "shuffle env e i st = Inr st1"
    and d: "for_each (\<lambda>_. d_update env a e i) [0..d_updates a - 1] st1 = Inr st2"
    and g: "g_update env a e i st2 = Inr st'"
    by (rule batch_step_Inr)
  have "lrs st1 = lrs st" using shuffle_Inr(1) [OF s] by (simp add: lrs_def)
  moreover have "lrs st2 = lrs st1"
    by (rule for_each_preserves [OF d, of "\<lambda>s. lrs s = lrs st1"])
       (auto simp: lrs_def dest: d_update_Inr(6,7))
  moreover have "lrs st' = lrs st2"
    using g_update_Inr(6,7) [OF g] by (simp add: lrs_def)
  ultimately show ?thesis by simp
qed

lemma train_epoch_lrs:
  assumes "train_epoch env a e st = Inr st'"
  shows "lrs st' = lrs st"
proof -
  from assms obtain ws st1 where w: "for_each (batch_step env a e) ws st = Inr st1"
    and p: "plot a e st1 = Inr st'"
    by (auto simp: train_epoch_def train_windows_def split: sum.splits)
  have "lrs st1 = lrs st"
    by (rule for_each_preserves [OF w, of "\<lambda>s. lrs s = lrs st"])
       (auto dest: batch_step_lrs)
  then show ?thesis using plot_Inr(1) [OF p] by (simp add: lrs_def)
qed

lemma train_lrs:
  assumes "train env a st = Inr st'"
  shows "lrs st' = lrs st"
  using assms unfolding train_def
  by (rule for_each_preserves [of _ _ _ _ "\<lambda>s. lrs s = lrs st"])
     (auto dest: train_epoch_lrs)

text \<open>
  C8: the value of \<open>--lr\<close> is overwritten after parsing, so the namespace the rest of
  the script reads has \<open>lr = 0.00004\<close>; both RMSprop optimizers are constructed with
  that rate, and no step of the loop changes it, whatever the command line supplied.
\<close>

theorem learning_rate_overridden:
  "(parse_args c = Inr a \<longrightarrow> lr (override a) = 0.00004 \<and>
      (init_state env (override a) = Inr st0 \<longrightarrow>
         opt_lr (generator_optimizer st0) = 0.00004 \<and>
         opt_lr (discriminator_optimizer st0) = 0.00004))
   \<and> (main env c = Inr st \<longrightarrow>
         opt_lr (generator_optimizer st) = 0.00004 \<and>
         opt_lr (discriminator_optimizer st) = 0.00004)"
proof -
  have o: "lr (override b) = 0.00004" for b :: args
    by (simp add: override_def)
  have i: "lrs s = (0.00004, 0.00004)" if "init_state env (override b) = Inr s" for b s
    using init_state_Inr(1,2) [OF that] o by (simp add: lrs_def)
  have "lrs st = (0.00004, 0.00004)" if "main env c = Inr st"
  proof -
    from that obtain b s0 where "init_state env (override b) = Inr s0"
      and "train env (override b) s0 = Inr st"
      by (rule main_Inr)
    then show ?thesis using i train_lrs by metis
  qed
  then show ?thesis using o i by (auto simp: lrs_def)
qed

lemma ex_parse: "parse_args ex_cli = Inr (ex_args\<lparr>lr := 1, gen_picture := False\<rparr>)"
  by (simp add: parse_args_def ex_cli_def ex_args_def opt_or_def device_choices_def loss_choices_def)

lemma ex_override: "override (ex_args\<lparr>lr := 1, gen_picture := False\<rparr>) = ex_args"
  by (simp add: override_def ex_args_def)

lemma ex_init: "init_state ex_env ex_args = Inr ex_state"
  by (simp add: init_state_def ex_args_def ex_env_def ex_state_def randn_def select_loss_def upt_rec)

lemma ex_main_ok: "\<exists>st. main ex_env ex_cli = Inr st"
  apply (simp add: main_def ex_parse ex_override ex_init train_def)
  apply (simp add: train_epoch_def train_windows_def py_range_def ex_args_def upt_rec)
  apply (simp add: batch_step_def shuffle_def index_rows_def ex_state_def ex_env_def
      d_update_def g_update_def Let_def randn_def scores_for_generator_def plot_def
      py_slice_def)
  done


theorem learning_rate_overridden_witness:
  "cli_lr ex_cli = Some 1
   \<and> parse_args ex_cli = Inr (ex_args\<lparr>lr := 1, gen_picture := False\<rparr>)
   \<and> init_state ex_env (override (ex_args\<lparr>lr := 1, gen_picture := False\<rparr>)) = Inr ex_state
   \<and> opt_lr (generator_optimizer ex_state) = 0.00004
   \<and> opt_lr (discriminator_optimizer ex_state) = 0.00004
   \<and> (\<exists>st. main ex_env ex_cli = Inr st \<and> opt_lr (generator_optimizer st) = 0.00004
         \<and> opt_lr (discriminator_optimizer st) = 0.00004)"
proof -
  have i: "init_state ex_env (override (ex_args\<lparr>lr := 1, gen_picture := False\<rparr>)) = Inr ex_state"
    using ex_init ex_override by simp
  obtain st where m: "main ex_env ex_cli = Inr st"
    using ex_main_ok by blast
  have "cli_lr ex_cli = Some 1" by (simp add: ex_cli_def)
  then show ?thesis
    using ex_parse i m
      learning_rate_overridden [of ex_cli "ex_args\<lparr>lr := 1, gen_picture := False\<rparr>" ex_env ex_state st]
    by auto
qed


section \<open>The skeleton of a run\<close>


lemma length_py_slice: "length (py_slice lo hi xs) = slice_len (length xs) lo hi"
  by (auto simp: py_slice_def slice_len_def Let_def min_def max_def)

lemma marks_append: "marks (xs @ ys) = marks xs @ marks ys"
  by (simp add: marks_def)

lemma mset_index_rows:
  assumes "mset idx = mset [0..<length xs]"
  shows "mset (map (\<lambda>k. xs ! k) idx) = mset xs"
proof -
  have "mset (map (\<lambda>k. xs ! k) idx) = image_mset (\<lambda>k. xs ! k) (mset idx)" by simp
  also have "\<dots> = mset (map (\<lambda>k. xs ! k) [0..<length xs])" using assms by simp
  also have "\<dots> = mset xs" by (simp add: map_nth)
  finally show ?thesis .
qed

lemma shuffle_data:
  assumes "shuffle env e i st = Inr st'" and "perm_ok env"
  shows "mset (data st') = mset (data st)" and "length (data st') = length (data st)"
proof -
  have m: "mset (randperm env (rng st) (length (data st))) = mset [0..<length (data st)]"
    using assms(2) by (simp add: perm_ok_def)
  show "mset (data st') = mset (data st)"
    using shuffle_Inr(1) [OF assms(1)] mset_index_rows [OF m] by simp
  then show "length (data st') = length (data st)"
    by (metis size_mset)
qed

lemma shuffle_ok:
  assumes "perm_ok env"
  shows "\<exists>st'. shuffle env e i st = Inr st'"
proof -
  have "mset (randperm env (rng st) (length (data st))) = mset [0..<length (data st)]"
    using assms by (simp add: perm_ok_def)
  then have "set (randperm env (rng st) (length (data st))) = set [0..<length (data st)]"
    by (rule mset_eq_setD)
  then show ?thesis by (simp add: shuffle_def index_rows_def)
qed

lemma d_update_ok:
  assumes "0 \<le> batch_size a" and "0 \<le> latent_size a"
  shows "\<exists>st'. d_update env a e i st = Inr st'"
  using assms by (simp add: d_update_def randn_def Let_def)

lemma scores_for_generator_ok: "\<exists>s. scores_for_generator a e pf = Inr s"
proof -
  have "\<not> length pf < length pf div 2" by simp
  then show ?thesis
    unfolding scores_for_generator_def topk_values_def by simp
qed

lemma g_update_ok:
  assumes "0 \<le> batch_size a" and "0 \<le> latent_size a"
  shows "\<exists>st'. g_update env a e i st = Inr st'"
proof -
  obtain nz where n: "randn (batch_size a) (latent_size a) (rng st) = Inr nz"
    using assms by (simp add: randn_def)
  obtain s where
    "scores_for_generator a e (disc_forward env (discriminator st) (gen_forward env (generator st) nz)) = Inr s"
    using scores_for_generator_ok by blast
  then show ?thesis using n by (simp add: g_update_def Let_def)
qed

lemma for_each_total:
  assumes "\<And>x s. x \<in> set xs \<Longrightarrow> \<exists>s'. body x s = Inr s'"
  shows "\<exists>st'. for_each body xs st = Inr st'"
  using for_each_indexed [of "\<lambda>k s. True" st xs body] assms by auto

lemma d_update_marks:
  assumes "d_update env a e i st = Inr st'"
  shows "marks (trace st') = marks (trace st) @ d_marks a (length (data st)) e i"
  using d_update_Inr(8) [OF assms]
  by (auto simp: marks_def d_marks_def length_py_slice)

lemma d_loop_marks:
  assumes "for_each (\<lambda>_. d_update env a e i) xs st = Inr st'"
  shows "marks (trace st') =
           marks (trace st) @ concat (replicate (length xs) (d_marks a (length (data st)) e i))"
    and "data st' = data st"
    and "loss_d st' = None \<longrightarrow> xs = [] \<and> loss_d st = None"
  using assms
proof (induction xs arbitrary: st)
  case Nil
  {
    case 1 then show ?case by simp
  next
    case 2 then show ?case by simp
  next
    case 3 then show ?case by simp
  }
next
  case (Cons x xs)
  {
    case 1
    then obtain s1 where b: "d_update env a e i st = Inr s1"
      and r: "for_each (\<lambda>_. d_update env a e i) xs s1 = Inr st'"
      by (auto split: sum.splits)
    show ?case
      using Cons.IH(1) [OF r] d_update_marks [OF b] d_update_Inr(2) [OF b] by simp
  next
    case 2
    then obtain s1 where b: "d_update env a e i st = Inr s1"
      and r: "for_each (\<lambda>_. d_update env a e i) xs s1 = Inr st'"
      by (auto split: sum.splits)
    show ?case
      using Cons.IH(2) [OF r] d_update_Inr(2) [OF b] by simp
  next
    case 3
    then obtain s1 where b: "d_update env a e i st = Inr s1"
      and r: "for_each (\<lambda>_. d_update env a e i) xs s1 = Inr st'"
      by (auto split: sum.splits)
    show ?case
      using Cons.IH(3) [OF r] d_update_Inr(5) [OF b] by simp
  }
qed

lemma batch_step_marks:
  assumes "batch_step env a e i st = Inr st'" and "perm_ok env"
  shows "marks (trace st') = marks (trace st) @ batch_marks a (length (data st)) e i"
    and "mset (data st') = mset (data st)"
proof -
  from assms(1) obtain st1 st2 where s: "shuffle env e i st = Inr st1"
    and d: "for_each (\<lambda>_. d_update env a e i) [0..d_updates a - 1] st1 = Inr st2"
    and g: "g_update env a e i st2 = Inr st'"
    by (rule batch_step_Inr)
  have len: "length [0..d_updates a - 1] = nat (d_updates a)" by simp
  have m1: "marks (trace st1) = marks (trace st) @ [MShuffle e i]"
    using shuffle_Inr(1) [OF s] by (simp add: marks_def)
  have m2: "marks (trace st2) = marks (trace st1) @
      concat (replicate (nat (d_updates a)) (d_marks a (length (data st)) e i))"
    using d_loop_marks(1) [OF d] shuffle_data(2) [OF s assms(2)] len by simp
  from g_update_Inr(8) [OF g] obtain sc v where
    "trace st' = trace st2 @ [GStep e i (rng st2) sc v]" by blast
  then have m3: "marks (trace st') = marks (trace st2) @ [MG e i]"
    by (simp add: marks_def)
  show "marks (trace st') = marks (trace st) @ batch_marks a (length (data st)) e i"
    using m1 m2 m3 by (simp add: batch_marks_def)
  show "mset (data st') = mset (data st)"
    using shuffle_data(1) [OF s assms(2)] d_loop_marks(2) [OF d] g_update_Inr(2) [OF g]
    by simp
qed

lemma batch_step_ok:
  assumes "perm_ok env" and "0 \<le> batch_size a" and "0 \<le> latent_size a"
    and "1 \<le> d_updates a"
  shows "\<exists>st'. batch_step env a e i st = Inr st'"
proof -
  obtain st1 where s: "shuffle env e i st = Inr st1"
    using shuffle_ok [OF assms(1)] by blast
  obtain st2 where d: "for_each (\<lambda>_. d_update env a e i) [0..d_updates a - 1] st1 = Inr st2"
    using for_each_total d_update_ok [OF assms(2,3)] by metis
  obtain st3 where g: "g_update env a e i st2 = Inr st3"
    using g_update_ok [OF assms(2,3)] by blast
  have "[0..d_updates a - 1] \<noteq> []" using assms(4) by (simp add: upto_rec1)
  then have "loss_d st2 \<noteq> None" using d_loop_marks(3) [OF d] by blast
  then have "loss_d st3 \<noteq> None" using g_update_Inr(5) [OF g] by simp
  then show ?thesis using s d g by (auto simp: batch_step_def)
qed


lemma train_windows_Inr:
  assumes "train_windows env a e st = Inr st'"
  shows "for_each (batch_step env a e) (windows_of a) st = Inr st'" and "batch_size a \<noteq> 0"
  using assms by (auto simp: train_windows_def windows_of_def py_range_def split: sum.splits if_splits)

lemma for_windows_marks:
  assumes "for_each (batch_step env a e) ws st = Inr st'" and "perm_ok env"
  shows "marks (trace st') =
           marks (trace st) @ concat (map (batch_marks a (length (data st)) e) ws)
         \<and> mset (data st') = mset (data st)"
proof -
  let ?I = "\<lambda>k s. marks (trace s) =
       marks (trace st) @ concat (map (batch_marks a (length (data st)) e) (take k ws))
     \<and> mset (data s) = mset (data st)"
  have "?I (length ws) st'"
  proof (rule for_each_indexed_partial [OF assms(1), of ?I])
    show "?I 0 st" by simp
  next
    fix k s s'
    assume k: "k < length ws" and i: "?I k s" and b: "batch_step env a e (ws ! k) s = Inr s'"
    have l: "length (data s) = length (data st)"
      using i by (metis size_mset)
    show "?I (Suc k) s'"
      using batch_step_marks [OF b assms(2)] i l k
      by (simp add: take_Suc_conv_app_nth)
  qed
  then show ?thesis by simp
qed

lemma train_epoch_marks:
  assumes "train_epoch env a e st = Inr st'" and "perm_ok env"
  shows "marks (trace st') = marks (trace st) @ epoch_marks a (length (data st)) e"
    and "mset (data st') = mset (data st)"
proof -
  from assms(1) obtain st1 where w: "train_windows env a e st = Inr st1"
    and p: "plot a e st1 = Inr st'"
    by (auto simp: train_epoch_def split: sum.splits)
  note f = for_windows_marks [OF train_windows_Inr(1) [OF w] assms(2)]
  show "marks (trace st') = marks (trace st) @ epoch_marks a (length (data st)) e"
    using f plot_Inr(1) [OF p] by (simp add: epoch_marks_def marks_def)
  show "mset (data st') = mset (data st)"
    using f plot_Inr(1) [OF p] by simp
qed

lemma train_marks:
  assumes "train env a st = Inr st'" and "perm_ok env"
  shows "marks (trace st') =
           marks (trace st) @ concat (map (epoch_marks a (length (data st))) [0..epochs a - 1])"
    and "mset (data st') = mset (data st)"
proof -
  let ?es = "[0..epochs a - 1]"
  let ?I = "\<lambda>k s. marks (trace s) =
       marks (trace st) @ concat (map (epoch_marks a (length (data st))) (take k ?es))
     \<and> mset (data s) = mset (data st)"
  have r: "for_each (train_epoch env a) ?es st = Inr st'"
    using assms(1) by (simp add: train_def)
  have "?I (length ?es) st'"
  proof (rule for_each_indexed_partial [OF r, of ?I])
    show "?I 0 st" by simp
  next
    fix k s s'
    assume k: "k < length ?es" and i: "?I k s" and b: "train_epoch env a (?es ! k) s = Inr s'"
    have l: "length (data s) = length (data st)"
      using i by (metis size_mset)
    show "?I (Suc k) s'"
      using train_epoch_marks [OF b assms(2)] i l k
      by (simp add: take_Suc_conv_app_nth)
  qed
  then show "marks (trace st') =
           marks (trace st) @ concat (map (epoch_marks a (length (data st))) [0..epochs a - 1])"
    and "mset (data st') = mset (data st)"
    by simp_all
qed

lemma main_marks:
  assumes "main env c = Inr st" and "perm_ok env" and "parse_args c = Inr a"
  shows "marks (trace st) =
           run_marks (override a) (length (get_data env (samples (override a))))"
    and "mset (data st) = mset (get_data env (samples (override a)))"
proof -
  from assms(1) obtain b st0 where p: "parse_args c = Inr b"
    and i: "init_state env (override b) = Inr st0"
    and t: "train env (override b) st0 = Inr st"
    by (rule main_Inr)
  have ab: "b = a" using p assms(3) by simp
  show "marks (trace st) =
           run_marks (override a) (length (get_data env (samples (override a))))"
    using train_marks(1) [OF t assms(2)] init_state_Inr(3,4) [OF i] ab
    by (simp add: run_marks_def marks_def)
  show "mset (data st) = mset (get_data env (samples (override a)))"
    using train_marks(2) [OF t assms(2)] init_state_Inr(4) [OF i] ab by simp
qed


lemma train_epoch_ok:
  assumes "perm_ok env" and "config_ok a"
  shows "\<exists>st'. train_epoch env a e st = Inr st'"
proof -
  have b: "\<And>i s. \<exists>s'. batch_step env a e i s = Inr s'"
    using batch_step_ok [OF assms(1)] assms(2) by (simp add: config_ok_def)
  obtain ws where w: "py_range 0 (samples a) (batch_size a) = Inr ws"
    using assms(2) by (simp add: py_range_def config_ok_def)
  obtain st1 where "for_each (batch_step env a e) ws st = Inr st1"
    using for_each_total b by metis
  then have "train_windows env a e st = Inr st1"
    using w by (simp add: train_windows_def)
  moreover have "\<exists>st'. plot a e st1 = Inr st'"
    using assms(2) by (simp add: plot_def config_ok_def)
  ultimately show ?thesis by (auto simp: train_epoch_def)
qed

lemma main_ok:
  assumes "perm_ok env" and "parse_args c = Inr a" and "config_ok (override a)"
  shows "\<exists>st. main env c = Inr st"
proof -
  have "0 \<le> samples (override a) div 10" and "0 \<le> latent_size (override a)"
    using assms(3) by (simp_all add: config_ok_def pos_imp_zdiv_nonneg_iff)
  then obtain st0 where i: "init_state env (override a) = Inr st0"
    by (simp add: init_state_def randn_def)
  obtain st where "train env (override a) st0 = Inr st"
    unfolding train_def
    using for_each_total train_epoch_ok [OF assms(1,3)] by metis
  then show ?thesis using assms(2) i by (simp add: main_def)
qed

section \<open>GAN\_piece2: shapes\<close>

lemma input_activation_rows:
  assumes "input_activation m v p2_batch_size p2_latent_dim r = Inr (z, k)"
  shows "latent_rows z = 64"
  using assms by (auto simp: input_activation_def p2_batch_size_def split: if_splits)

lemma length_generator2: "length (generator2 env g z) = latent_rows z"
  by (simp add: generator2_def)

lemma length_discriminator2: "length (discriminator2 env d xs) = length xs"
  by (simp add: discriminator2_def)

text \<open>
  C10: in GAN\_piece2 the latent batch has \<open>batch_size = 64\<close> rows whatever the real
  batch is, and so have the discriminator's predictions on the generated images; the
  labels have \<open>imgs.size(0)\<close> rows. On a real batch of fewer than 64 images the
  binary cross entropy of the fake predictions against the fake labels is given two
  tensors of different sizes and raises, before any optimizer step of that batch.
\<close>

theorem partial_batch_shape_mismatch:
  "(input_activation (activation_mode st) (activation_value st) p2_batch_size p2_latent_dim
       (rng2 st) = Inr (z, k) \<longrightarrow>
      latent_rows z = 64 \<and>
      length (discriminator2 env (discriminator_p2 st) (generator2 env (generator_p2 st) z)) = 64)
   \<and> (length imgs < 64 \<longrightarrow>
      length (replicate (length imgs) (0::real)) \<noteq> 64 \<and>
      batch_step2 env epoch i imgs st = Inl (ValueError, trace2 st))"
proof -
  have a: "latent_rows z = 64 \<and>
      length (discriminator2 env (discriminator_p2 st) (generator2 env (generator_p2 st) z)) = 64"
    if "input_activation (activation_mode st) (activation_value st) p2_batch_size p2_latent_dim
       (rng2 st) = Inr (z, k)"
    using input_activation_rows [OF that]
    by (simp add: length_generator2 length_discriminator2)
  have b: "batch_step2 env epoch i imgs st = Inl (ValueError, trace2 st)" if l: "length imgs < 64"
  proof -
    obtain real_loss where r: "criterion env (discriminator2 env (discriminator_p2 st) imgs)
                  (replicate (length imgs) 1) = Inr real_loss"
      by (simp add: criterion_def length_discriminator2)
    show ?thesis
    proof (cases "input_activation (activation_mode st) (activation_value st)
                    p2_batch_size p2_latent_dim (rng2 st)")
      case (Inl e)
      then have "e = ValueError"
        by (auto simp: input_activation_def split: if_splits)
      then show ?thesis using r Inl by (simp add: batch_step2_def Let_def)
    next
      case (Inr zk)
      obtain z' k' where zk: "zk = (z', k')" by (cases zk)
      have "latent_rows z' = 64"
        using Inr zk input_activation_rows by blast
      then have "criterion env
          (discriminator2 env (discriminator_p2 st) (generator2 env (generator_p2 st) z'))
          (replicate (length imgs) 0) = Inl ValueError"
        using l by (simp add: criterion_def length_generator2 length_discriminator2)
      then show ?thesis using r Inr zk by (simp add: batch_step2_def Let_def)
    qed
  qed
  show ?thesis using a b by auto
qed

theorem partial_batch_shape_mismatch_witness:
  "input_activation (activation_mode (init_state2 () () :: (unit, unit, fl) state2))
      (activation_value (init_state2 () () :: (unit, unit, fl) state2))
      p2_batch_size p2_latent_dim (rng2 (init_state2 () () :: (unit, unit, fl) state2))
     = Inr (Full 64 100 0.5, 0)
   \<and> latent_rows (Full 64 100 0.5) = 64
   \<and> length [0::nat, 1, 2] < 64
   \<and> batch_step2 ex_env2 0 0 [0, 1, 2] (init_state2 () ()) = Inl (ValueError, [])"
proof -
  let ?st = "init_state2 () () :: (unit, unit, fl) state2"
  have h1: "input_activation (activation_mode ?st) (activation_value ?st)
      p2_batch_size p2_latent_dim (rng2 ?st) = Inr (Full 64 100 0.5, 0)"
    by (simp add: init_state2_def input_activation_def p2_batch_size_def p2_latent_dim_def)
  have h2: "length [0::nat, 1, 2] < 64" by simp
  have t: "trace2 ?st = []" by (simp add: init_state2_def)
  show ?thesis
    using partial_batch_shape_mismatch [of ?st "Full 64 100 0.5" 0 ex_env2 "[0, 1, 2]" 0 0]
      h1 h2 t
    by auto
qed

section \<open>The alternating protocol\<close>







section \<open>The top-k filter\<close>








section \<open>Weight clipping\<close>










section \<open>Non-finite losses\<close>


lemma ex_step_0:
  "batch_step ex_env ex_args 0 0 ex_state =
     Inr (ex_state\<lparr>rng := 4, data := [3, 2, 1, 0], discriminator := [0.5, - 0.5],
            loss_d := Some NaN, loss_g := Some (Finite 1),
            trace := [FixedNoise 0, Shuffle 0 0 1, DStep 0 0 2 [3, 2] NaN, Clamp False 0.5,
              GStep 0 0 3 [0, 1] (Finite 1)]\<rparr>)"
  by (simp add: batch_step_def shuffle_def index_rows_def ex_state_def ex_env_def
      d_update_def g_update_def Let_def randn_def scores_for_generator_def
      py_slice_def ex_args_def clamp_def upt_rec upto_rec1)

lemma ex_step_2:
  "batch_step ex_env ex_args 0 2
     (ex_state\<lparr>rng := 4, data := [3, 2, 1, 0], discriminator := [0.5, - 0.5],
            loss_d := Some NaN, loss_g := Some (Finite 1),
            trace := [FixedNoise 0, Shuffle 0 0 1, DStep 0 0 2 [3, 2] NaN, Clamp False 0.5,
              GStep 0 0 3 [0, 1] (Finite 1)]\<rparr>) = Inr ex_final"
  by (simp add: batch_step_def shuffle_def index_rows_def ex_state_def ex_env_def
      d_update_def g_update_def Let_def randn_def scores_for_generator_def
      py_slice_def ex_args_def clamp_def upt_rec upto_rec1 ex_final_def)

lemma ex_windows: "py_range 0 (samples ex_args) (batch_size ex_args) = Inr [0, 2]"
  by (simp add: py_range_def ex_args_def upt_rec)

lemma ex_main: "main ex_env ex_cli = Inr ex_final"
proof -
  have "for_each (batch_step ex_env ex_args 0) [0, 2] ex_state = Inr ex_final"
    by (simp only: for_each.simps ex_step_0 ex_step_2 sum.case)
  then have "train_windows ex_env ex_args 0 ex_state = Inr ex_final"
    by (simp only: train_windows_def ex_windows sum.case)
  moreover have "plot ex_args 0 ex_final = Inr ex_final"
    by (simp add: plot_def ex_args_def)
  ultimately have "train_epoch ex_env ex_args 0 ex_state = Inr ex_final"
    by (simp add: train_epoch_def)
  moreover have "[0..epochs ex_args - 1] = [0]"
    by (simp add: ex_args_def upto_rec1)
  ultimately have "train ex_env ex_args ex_state = Inr ex_final"
    by (simp add: train_def)
  then show ?thesis
    by (simp add: main_def ex_parse ex_override ex_init)
qed

lemma ex_perm_ok: "perm_ok ex_env"
  by (simp add: perm_ok_def ex_env_def)

lemma perm_ok_losses:
  "perm_ok (env\<lparr>loss_discriminator := ld, loss_discriminator_gp := lgp,
              loss_generator := lg, item := it\<rparr>) = perm_ok env"
  by (simp add: perm_ok_def)

lemma batch_step2_ok:
  assumes "activation_mode st = ''random'' \<or> activation_mode st = ''uniform''"
    and "length imgs = 64"
  shows "\<exists>st'. batch_step2 env ep k imgs st = Inr st'"
proof -
  obtain z r where i: "input_activation (activation_mode st) (activation_value st)
      p2_batch_size p2_latent_dim (rng2 st) = Inr (z, r)"
    using assms(1) by (auto simp: input_activation_def)
  have "latent_rows z = 64" using input_activation_rows [OF i] .
  then show ?thesis
    using i assms(2)
    by (simp add: batch_step2_def Let_def criterion_def length_generator2 length_discriminator2)
qed

text \<open>
  C5, as stated, fails: with a discriminator loss that is NaN at every step the run of
  \<open>ex_cli\<close> ends normally; the first discriminator step has the loss NaN and is
  followed by a generator step and a whole further window.
\<close>

theorem nonfinite_loss_counterexample:
  "main ex_env ex_cli = Inr ex_final \<and> continues_past_nonfinite (trace ex_final)
   \<and> loss_of (trace ex_final ! 2) = Some NaN"
  by (simp add: ex_main ex_final_def)

text \<open>
  C5, amended. Neither script checks a loss for finiteness, and a non-finite loss does
  not abort the run. In GAN\_piece1, under a configuration in which no statement
  raises, the run returns and performs every step of every window of every epoch,
  whatever the loss functions and the values read from them are. In GAN\_piece2 a
  batch of 64 images is processed to the end whatever the loss values are.
\<close>

theorem no_finiteness_check:
  "(perm_ok env \<longrightarrow> parse_args c = Inr a \<longrightarrow> config_ok (override a) \<longrightarrow>
      (\<exists>st. main (env\<lparr>loss_discriminator := ld, loss_discriminator_gp := lgp,
                     loss_generator := lg, item := it\<rparr>) c = Inr st
          \<and> marks (trace st) =
              run_marks (override a) (length (get_data env (samples a)))))
   \<and> (activation_mode st2 = ''random'' \<or> activation_mode st2 = ''uniform'' \<longrightarrow>
      length imgs = 64 \<longrightarrow>
      (\<exists>st2'. batch_step2 (env2\<lparr>bce := b, add_loss := ad, item2 := it2\<rparr>) ep k imgs st2
                = Inr st2'))"
proof -
  let ?env = "env\<lparr>loss_discriminator := ld, loss_discriminator_gp := lgp,
                  loss_generator := lg, item := it\<rparr>"
  have "\<exists>st. main ?env c = Inr st
          \<and> marks (trace st) = run_marks (override a) (length (get_data env (samples a)))"
    if p: "perm_ok env" and q: "parse_args c = Inr a" and r: "config_ok (override a)"
  proof -
    have p': "perm_ok ?env" using p by (simp add: perm_ok_losses)
    obtain st where m: "main ?env c = Inr st"
      using main_ok [OF p' q r] by blast
    have "marks (trace st) = run_marks (override a) (length (get_data env (samples a)))"
      using main_marks(1) [OF m p' q] by (simp add: override_def)
    then show ?thesis using m by blast
  qed
  then show ?thesis using batch_step2_ok by blast
qed

lemma ex_config_ok: "config_ok (override (ex_args\<lparr>lr := 1, gen_picture := False\<rparr>))"
  unfolding ex_override by (simp add: config_ok_def ex_args_def)

theorem no_finiteness_check_witness:
  "perm_ok ex_env \<and> parse_args ex_cli = Inr (ex_args\<lparr>lr := 1, gen_picture := False\<rparr>)
   \<and> config_ok (override (ex_args\<lparr>lr := 1, gen_picture := False\<rparr>))
   \<and> (\<exists>st. main (ex_env\<lparr>loss_discriminator := (\<lambda>f r k. PosInf),
                     loss_discriminator_gp := (\<lambda>r k p b f. PosInf),
                     loss_generator := (\<lambda>f s. NaN), item := (\<lambda>l. l)\<rparr>) ex_cli = Inr st
          \<and> marks (trace st) =
               [MFixed, MShuffle 0 0, MD 0 0 2, MClamp, MG 0 0,
                MShuffle 0 2, MD 0 2 2, MClamp, MG 0 2])
   \<and> activation_mode (init_state2 () () :: (unit, unit, fl) state2) = ''uniform''
   \<and> length (replicate 64 (0::nat)) = 64
   \<and> (\<exists>st2'. batch_step2 (ex_env2\<lparr>bce := (\<lambda>x y. NaN), add_loss := (\<lambda>x y. NaN),
                   item2 := (\<lambda>l. l)\<rparr>) 0 0 (replicate 64 0)
                 (init_state2 () () :: (unit, unit, fl) state2) = Inr st2')"
proof -
  let ?s2 = "init_state2 () () :: (unit, unit, fl) state2"
  have m: "activation_mode ?s2 = ''uniform''" by (simp add: init_state2_def)
  have l: "length (replicate 64 (0::nat)) = 64" by simp
  have g: "length (get_data ex_env (samples (ex_args\<lparr>lr := 1, gen_picture := False\<rparr>))) = 4"
    by (simp add: ex_env_def ex_args_def)
  have w: "windows_of ex_args = [0, 2]"
    by (simp add: windows_of_def ex_windows)
  have r: "run_marks ex_args 4 =
      [MFixed, MShuffle 0 0, MD 0 0 2, MClamp, MG 0 0, MShuffle 0 2, MD 0 2 2, MClamp, MG 0 2]"
    unfolding run_marks_def epoch_marks_def w
    by (simp add: batch_marks_def d_marks_def slice_len_def ex_args_def upto_rec1)
  note inst = no_finiteness_check [where env = ex_env and c = ex_cli
      and a = "ex_args\<lparr>lr := 1, gen_picture := False\<rparr>"
      and ld = "\<lambda>f r k. PosInf" and lgp = "\<lambda>r k p b f. PosInf"
      and lg = "\<lambda>f s. NaN" and it = "\<lambda>l. l" and ?st2.0 = ?s2
      and imgs = "replicate 64 (0::nat)" and ?env2.0 = ex_env2 and b = "\<lambda>x y. NaN"
      and ad = "\<lambda>x y. NaN" and ?it2.0 = "\<lambda>l. l" and ep = 0 and k = 0]
  show ?thesis
    using inst ex_perm_ok ex_parse ex_config_ok m l g r ex_override
    by auto
qed

section \<open>Clipping and the loss family\<close>






section \<open>Windows of an epoch\<close>



























section \<open>Shuffling\<close>












end
